theory Spec2Isabelle
  imports Complex_Main
begin

section \<open>The DevOps AI engine (core/devops\_ai\_engine.py)\<close>

text \<open>
  Python strings are modelled by HOL strings: a character is a code point below 256
  (Latin-1). The character classes below are what \<^verbatim>\<open>str.isspace\<close>, the regular
  expression classes \<^verbatim>\<open>\s\<close>, \<^verbatim>\<open>\w\<close>, \<^verbatim>\<open>\d\<close> and \<^verbatim>\<open>str.isdigit\<close> answer on these
  code points.
\<close>

subsection \<open>Character classes\<close>

definition code :: "char \<Rightarrow> nat" where
  "code c = of_char c"

text \<open>\<^verbatim>\<open>\d\<close>, and the digits \<^verbatim>\<open>int\<close> and \<^verbatim>\<open>float\<close> read: the decimal digits 0 to 9.\<close>

definition is_decimal :: "char \<Rightarrow> bool" where
  "is_decimal c = (48 \<le> code c \<and> code c \<le> 57)"

text \<open>\<^verbatim>\<open>\w\<close>: alphanumeric (letters, digits, numeric characters) or the underscore.\<close>

definition is_word :: "char \<Rightarrow> bool" where
  "is_word c = (let n = code c in
     (48 \<le> n \<and> n \<le> 57) \<or> (65 \<le> n \<and> n \<le> 90) \<or> n = 95 \<or> (97 \<le> n \<and> n \<le> 122)
     \<or> n = 170 \<or> n = 178 \<or> n = 179 \<or> n = 181 \<or> n = 185 \<or> n = 186
     \<or> (188 \<le> n \<and> n \<le> 190) \<or> (192 \<le> n \<and> n \<le> 214) \<or> (216 \<le> n \<and> n \<le> 246)
     \<or> 248 \<le> n)"

text \<open>\<^verbatim>\<open>\s\<close> and \<^verbatim>\<open>str.isspace\<close>.\<close>

definition is_space :: "char \<Rightarrow> bool" where
  "is_space c = (let n = code c in
     (9 \<le> n \<and> n \<le> 13) \<or> (28 \<le> n \<and> n \<le> 32) \<or> n = 133 \<or> n = 160)"

text \<open>\<^verbatim>\<open>str.isdigit\<close> of one character: the decimal digits and the superscripts 1, 2, 3.\<close>

definition is_digit_char :: "char \<Rightarrow> bool" where
  "is_digit_char c = (is_decimal c \<or> code c = 178 \<or> code c = 179 \<or> code c = 185)"

definition newline :: char where
  "newline = CHR 0x0A"

subsection \<open>clean\_text\<close>

text \<open>
  \<^verbatim>\<open>re.sub(r'\b\d+\.(?=\w)', '', text)\<close>. \<open>list_marker_at pw s\<close> tries the pattern at the
  start of \<open>s\<close>, where \<open>pw\<close> tells whether the character before \<open>s\<close> is a word
  character: \<^verbatim>\<open>\b\<close> before a digit holds when that character is not one (or there is
  none). The digits are taken greedily, a dot must follow and a word character after it,
  which is looked at and not consumed. The result is what follows the match.
\<close>

definition list_marker_at :: "bool \<Rightarrow> string \<Rightarrow> string option" where
  "list_marker_at pw s =
     (if pw \<or> takeWhile is_decimal s = [] then None
      else case dropWhile is_decimal s of
             d # e # r \<Rightarrow> if d = CHR ''.'' \<and> is_word e then Some (e # r) else None
           | _ \<Rightarrow> None)"

text \<open>
  The scan of \<^verbatim>\<open>re.sub\<close>: leftmost matches, not overlapping; a match is replaced by the
  empty string and the scan goes on after it (the character before is then the dot).
\<close>

function sub_list_marker :: "bool \<Rightarrow> string \<Rightarrow> string" where
  "sub_list_marker pw [] = []"
| "sub_list_marker pw (c # cs) =
     (case list_marker_at pw (c # cs) of
        Some r \<Rightarrow> sub_list_marker False r
      | None \<Rightarrow> c # sub_list_marker (is_word c) cs)"
  by pat_completeness auto
termination
proof (relation "measure (\<lambda>(pw, s). length s)")
  show "wf (measure (\<lambda>(pw, s). length s))" by simp
next
  fix pw :: bool and c cs
  show "((is_word c, cs), pw, c # cs) \<in> measure (\<lambda>(pw, s). length s)" by simp
next
  fix pw :: bool and c cs r
  assume "list_marker_at pw (c # cs) = Some r"
  then obtain d where "dropWhile is_decimal (c # cs) = d # r"
    by (auto simp: list_marker_at_def split: if_splits list.splits)
  then have "length (dropWhile is_decimal (c # cs)) = Suc (length r)" by simp
  moreover have "length (dropWhile is_decimal (c # cs)) \<le> length (c # cs)"
    by (rule length_dropWhile_le)
  ultimately show "((False, r), pw, c # cs) \<in> measure (\<lambda>(pw, s). length s)" by simp
qed

text \<open>\<^verbatim>\<open>text.replace('\n', ', ')\<close>\<close>

definition replace_newlines :: "string \<Rightarrow> string" where
  "replace_newlines s = concat (map (\<lambda>c. if c = newline then '', '' else [c]) s)"

text \<open>
  \<^verbatim>\<open>
  def clean_text(text):
      if text is None:
          return ''
      text = re.sub(r'\*', '', text)
      text = text.replace('\n', ', ')
      text = re.sub(r'\b\d+\.(?=\w)', '', text)
      text = re.sub(r'[^\w\s]', '', text)
      return text
  \<close>
\<close>

definition clean_text :: "string option \<Rightarrow> string" where
  "clean_text text =
     (case text of
        None \<Rightarrow> []
      | Some t \<Rightarrow>
          let t1 = filter (\<lambda>c. c \<noteq> CHR ''*'') t;
              t2 = replace_newlines t1;
              t3 = sub_list_marker False t2
          in filter (\<lambda>c. is_word c \<or> is_space c) t3)"

subsection \<open>Strings: strip, split, upper\<close>

text \<open>\<^verbatim>\<open>str.strip()\<close>: white space is removed at both ends.\<close>

definition strip :: "string \<Rightarrow> string" where
  "strip s = rev (dropWhile is_space (rev (dropWhile is_space s)))"

text \<open>\<^verbatim>\<open>s.split(d)\<close> for a separator \<open>d\<close> of one character.\<close>

fun split_on :: "char \<Rightarrow> string \<Rightarrow> string list" where
  "split_on d [] = [[]]"
| "split_on d (c # cs) =
     (if c = d then [] # split_on d cs
      else case split_on d cs of
             p # ps \<Rightarrow> (c # p) # ps
           | [] \<Rightarrow> [[c]])"

text \<open>\<^verbatim>\<open>s.split(d, n)\<close>: at most \<open>n\<close> splits, the rest of the string is the last part.\<close>

fun split_max :: "char \<Rightarrow> nat \<Rightarrow> string \<Rightarrow> string list" where
  "split_max d 0 s = [s]"
| "split_max d (Suc n) [] = [[]]"
| "split_max d (Suc n) (c # cs) =
     (if c = d then [] # split_max d n cs
      else case split_max d (Suc n) cs of
             p # ps \<Rightarrow> (c # p) # ps
           | [] \<Rightarrow> [[c]])"

text \<open>
  \<^verbatim>\<open>str.upper()\<close>, one character at a time. The three Latin-1 letters whose capital lies
  outside Latin-1 (the micro sign, sharp s, y with diaeresis) are left as they are: the
  capital of none of them is a letter of \<^verbatim>\<open>"NONE"\<close>, the only string the result is
  compared with.
\<close>

definition upper_char :: "char \<Rightarrow> char" where
  "upper_char c = (let n = code c in
     if (97 \<le> n \<and> n \<le> 122) \<or> (224 \<le> n \<and> n \<le> 254 \<and> n \<noteq> 247)
     then char_of (n - 32) else c)"

definition upper :: "string \<Rightarrow> string" where
  "upper s = map upper_char s"

text \<open>\<^verbatim>\<open>str.isdigit()\<close>: not empty, and every character is a digit.\<close>

definition isdigit :: "string \<Rightarrow> bool" where
  "isdigit s = (s \<noteq> [] \<and> list_all is_digit_char s)"

subsection \<open>Numbers: int and float\<close>

datatype py_exception =
    UnboundLocalError string
  | ValueError string
  | OverflowError string
  | OtherException string

definition digit_value :: "char \<Rightarrow> int" where
  "digit_value c = int (code c) - 48"

definition int_of_digits :: "string \<Rightarrow> int" where
  "int_of_digits s = foldl (\<lambda>n c. 10 * n + digit_value c) 0 s"

text \<open>
  \<^verbatim>\<open>int(s)\<close> on a string that passed \<^verbatim>\<open>isdigit()\<close>: a \<^verbatim>\<open>ValueError\<close> (here \<open>None\<close>) for
  a superscript digit, and for more than 4300 digits (the default limit of CPython 3.11
  and later on the conversion of strings to integers).
\<close>

definition py_int :: "string \<Rightarrow> int option" where
  "py_int s =
     (if s \<noteq> [] \<and> list_all is_decimal s \<and> length s \<le> 4300
      then Some (int_of_digits s) else None)"

text \<open>
  A Python float is a double: a rational number, an infinity or not-a-number. The sign of
  zero is not kept: no comparison sees it.
\<close>

datatype pyfloat = Finite rat | PInf | NInf | NaN

text \<open>\<^verbatim>\<open>a <= b\<close> and \<^verbatim>\<open>a < b\<close> on floats: both are false when either side is not-a-number.\<close>

fun float_le :: "pyfloat \<Rightarrow> pyfloat \<Rightarrow> bool" where
  "float_le NaN b = False"
| "float_le a NaN = False"
| "float_le NInf b = True"
| "float_le a PInf = True"
| "float_le (Finite x) (Finite y) = (x \<le> y)"
| "float_le a b = False"

fun float_lt :: "pyfloat \<Rightarrow> pyfloat \<Rightarrow> bool" where
  "float_lt NaN b = False"
| "float_lt a NaN = False"
| "float_lt PInf b = False"
| "float_lt a NInf = False"
| "float_lt (Finite x) (Finite y) = (x < y)"
| "float_lt a b = True"

fun float_neg :: "pyfloat \<Rightarrow> pyfloat" where
  "float_neg (Finite x) = Finite (- x)"
| "float_neg PInf = NInf"
| "float_neg NInf = PInf"
| "float_neg NaN = NaN"

text \<open>The number of binary digits of a positive integer (\<^verbatim>\<open>int.bit_length\<close>).\<close>

function bit_length :: "int \<Rightarrow> nat" where
  "bit_length n = (if n \<le> 0 then 0 else Suc (bit_length (n div 2)))"
  by pat_completeness auto
termination
  by (relation "measure nat") auto

declare bit_length.simps [simp del]

text \<open>The integer nearest to \<open>a / b\<close>, the even one of the two when it lies half way.\<close>

definition round_half_even :: "int \<Rightarrow> int \<Rightarrow> int" where
  "round_half_even a b = (let q = a div b; r = a mod b in
     if 2 * r < b then q
     else if b < 2 * r then q + 1
     else if even q then q else q + 1)"

text \<open>
  The double nearest to \<open>a / b\<close> (for \<open>a \<ge> 0\<close> and \<open>b > 0\<close>), as the conversion of a decimal string
  rounds: the binary exponent \<open>e\<close> of \<open>a / b\<close> is found from the bit lengths, it is not
  below -1022 (subnormal numbers), the unit in the last place is \<open>2 ^ (e - 52)\<close>, and a
  result that reaches \<open>2 ^ 1024\<close> is infinite.
\<close>

definition double_of_fraction :: "int \<Rightarrow> int \<Rightarrow> pyfloat" where
  "double_of_fraction a b =
     (if a = 0 then Finite 0
      else
        let d = int (bit_length a) - int (bit_length b);
            e = (if (if 0 \<le> d then b * 2 ^ nat d \<le> a else b \<le> a * 2 ^ nat (- d))
                 then d else d - 1);
            k = max e (- 1022) - 52
        in if 0 \<le> k then
             (let n = round_half_even a (b * 2 ^ nat k) in
              if 2 ^ 1024 \<le> n * 2 ^ nat k then PInf
              else Finite (of_int (n * 2 ^ nat k)))
           else
             (let n = round_half_even (a * 2 ^ nat (- k)) b in
              Finite (of_int n / of_int (2 ^ nat (- k)))))"

text \<open>
  A run of digits in which single underscores may stand between two digits: the digits
  read and the rest of the string.
\<close>

fun digitpart :: "string \<Rightarrow> string \<times> string" where
  "digitpart [] = ([], [])"
| "digitpart (c # cs) =
     (if is_decimal c then
        (case cs of
           u # d # r \<Rightarrow>
             if u = CHR ''_'' \<and> is_decimal d
             then (let (ds, rest) = digitpart (d # r) in (c # ds, rest))
             else (let (ds, rest) = digitpart cs in (c # ds, rest))
         | _ \<Rightarrow> (let (ds, rest) = digitpart cs in (c # ds, rest)))
      else ([], c # cs))"

text \<open>The exponent part: empty, or \<^verbatim>\<open>e\<close> or \<^verbatim>\<open>E\<close>, an optional sign and digits to the end.\<close>

definition exponent :: "string \<Rightarrow> int option" where
  "exponent s =
     (case s of
        [] \<Rightarrow> Some 0
      | c # r \<Rightarrow>
          if c = CHR ''e'' \<or> c = CHR ''E'' then
            (let neg = (r \<noteq> [] \<and> hd r = CHR ''-'');
                 r' = (if r \<noteq> [] \<and> (hd r = CHR ''-'' \<or> hd r = CHR ''+'') then tl r else r);
                 (ds, rest) = digitpart r'
             in if ds = [] \<or> rest \<noteq> [] then None
                else Some (if neg then - int_of_digits ds else int_of_digits ds))
          else None)"

text \<open>An unsigned decimal number: digits, an optional fraction, an optional exponent.\<close>

definition decimal_float :: "string \<Rightarrow> pyfloat option" where
  "decimal_float s =
     (let (ip, r1) = digitpart s;
          (fp, r2) = (case r1 of
                        c # r \<Rightarrow> if c = CHR ''.'' then digitpart r else ([], r1)
                      | [] \<Rightarrow> ([], r1))
      in if ip = [] \<and> fp = [] then None
         else case exponent r2 of
                None \<Rightarrow> None
              | Some ex \<Rightarrow>
                  let m = int_of_digits (ip @ fp);
                      e10 = ex - int (length fp)
                  in Some (if 0 \<le> e10 then double_of_fraction (m * 10 ^ nat e10) 1
                           else double_of_fraction m (10 ^ nat (- e10))))"

definition lower_ascii :: "char \<Rightarrow> char" where
  "lower_ascii c = (if 65 \<le> code c \<and> code c \<le> 90 then char_of (code c + 32) else c)"

definition unsigned_float :: "string \<Rightarrow> pyfloat option" where
  "unsigned_float s = (let l = map lower_ascii s in
     if l = ''inf'' \<or> l = ''infinity'' then Some PInf
     else if l = ''nan'' then Some NaN
     else decimal_float s)"

text \<open>
  The white space \<^verbatim>\<open>float\<close> drops around a number: tab to carriage return and the
  space, and the two white space characters above 127 (next line, no-break space), which
  the conversion turns into spaces first. The separators 28 to 31 are white space for
  \<^verbatim>\<open>str.strip\<close> and not here: with one of them the string is no number.
\<close>

definition is_float_space :: "char \<Rightarrow> bool" where
  "is_float_space c = (let n = code c in
     (9 \<le> n \<and> n \<le> 13) \<or> n = 32 \<or> n = 133 \<or> n = 160)"

definition float_strip :: "string \<Rightarrow> string" where
  "float_strip s = rev (dropWhile is_float_space (rev (dropWhile is_float_space s)))"

text \<open>
  \<^verbatim>\<open>float(s)\<close> on a string: white space around is dropped, then a sign, then
  \<^verbatim>\<open>inf\<close>, \<^verbatim>\<open>infinity\<close> or \<^verbatim>\<open>nan\<close> in any case, or a decimal number. \<open>None\<close> is the
  \<^verbatim>\<open>ValueError\<close> of a string that is none of these.
\<close>

definition py_float :: "string \<Rightarrow> pyfloat option" where
  "py_float s =
     (case float_strip s of
        [] \<Rightarrow> None
      | c # r \<Rightarrow>
          if c = CHR ''-'' then map_option float_neg (unsigned_float r)
          else if c = CHR ''+'' then unsigned_float r
          else unsigned_float (c # r))"

subsection \<open>Knowledge entries and solutions\<close>

text \<open>
  A knowledge entry is the tuple \<^verbatim>\<open>(doc_id, failure, root_cause, solution)\<close>; a text
  column of the database may be \<^verbatim>\<open>NULL\<close>, which Python reads as \<^verbatim>\<open>None\<close>.
\<close>

record doc =
  doc_id :: nat
  failure :: "string option"
  root_cause :: "string option"
  solution :: "string option"

text \<open>
  The dictionary \<^verbatim>\<open>create_solution_entry\<close> returns, with its keys \<^verbatim>\<open>"Failure"\<close>,
  \<^verbatim>\<open>"Root Cause"\<close>, \<^verbatim>\<open>"Solution"\<close>, \<^verbatim>\<open>"confidence"\<close>, \<^verbatim>\<open>"reason"\<close> and
  \<^verbatim>\<open>"global_index"\<close>.
\<close>

record scored_solution =
  Failure :: "string option"
  Root_Cause :: "string option"
  Solution :: "string option"
  confidence :: pyfloat
  reason :: string
  global_index :: int

text \<open>The literal \<^verbatim>\<open>0.6\<close>: the double nearest to six tenths.\<close>

definition threshold :: pyfloat where
  "threshold = Finite (5404319552844595 / 9007199254740992)"

text \<open>
  \<^verbatim>\<open>
  def create_solution_entry(local_idx, confidence, reason, chunk_offset, retrieved_docs):
      # Only populate if confidence score is > 0.6
      if confidence <= 0.6:
          return None
      global_idx = chunk_offset + local_idx
      if 0 <= global_idx < len(retrieved_docs):
          doc = retrieved_docs[global_idx]
          # Handle tuple format: (doc_id, failure, root_cause, solution)
          if isinstance(doc, tuple) and len(doc) >= 4:
              return {"Failure": doc[1], "Root Cause": doc[2], "Solution": doc[3],
                      "confidence": confidence, "reason": reason,
                      "global_index": global_idx}
      return None
  \<close>
  Every entry of \<open>retrieved_docs\<close> is a tuple of four fields here, by its type.
\<close>

definition create_solution_entry ::
  "int \<Rightarrow> pyfloat \<Rightarrow> string \<Rightarrow> int \<Rightarrow> doc list \<Rightarrow> scored_solution option" where
  "create_solution_entry local_idx conf rsn chunk_offset retrieved_docs =
     (if float_le conf threshold then None
      else
        let global_idx = chunk_offset + local_idx in
        if 0 \<le> global_idx \<and> global_idx < int (length retrieved_docs) then
          (let d = retrieved_docs ! nat global_idx in
           Some \<lparr>Failure = failure d, Root_Cause = root_cause d, Solution = solution d,
                 confidence = conf, reason = rsn, global_index = global_idx\<rparr>)
        else None)"

subsection \<open>parse\_llm\_response\<close>

text \<open>
  \<^verbatim>\<open>
  def parse_llm_response(response, chunk, chunk_offset, retrieved_docs):
      solutions = []
      if response.upper().strip() == "NONE":
          return solutions
      for line in response.split("\n"):
          line = line.strip()
          if not line:
              continue
          try:
              if '|' in line:
                  parts = [p.strip() for p in line.split('|')]
                  if len(parts) >= 3 and parts[0].isdigit():
                      local_idx = int(parts[0])
                      confidence = float(parts[1])
                      reason = parts[2]
              else:
                  parts = line.split(' ', 2)
                  if len(parts) >= 2 and parts[0].isdigit():
                      local_idx = int(parts[0])
                      confidence = float(parts[1])
                      reason = parts[2] if len(parts) > 2 else "Selected by LLM"
                  else:
                      continue
              solution_entry = create_solution_entry(local_idx, confidence, reason,
                                                     chunk_offset, retrieved_docs)
              if solution_entry:
                  solutions.append(solution_entry)
          except (ValueError, IndexError) as e:
              continue
      return solutions
  \<close>
  The three variables \<^verbatim>\<open>local_idx\<close>, \<^verbatim>\<open>confidence\<close> and \<^verbatim>\<open>reason\<close> live through
  the whole loop: a line keeps what an earlier line assigned, and a variable no line has
  assigned is unbound (\<open>None\<close>). Reading an unbound variable raises
  \<^verbatim>\<open>UnboundLocalError\<close>, which is neither a \<^verbatim>\<open>ValueError\<close> nor an \<^verbatim>\<open>IndexError\<close> and
  leaves the function.
\<close>

record locals =
  v_local_idx :: "int option"
  v_confidence :: "pyfloat option"
  v_reason :: "string option"

definition unbound :: locals where
  "unbound = \<lparr>v_local_idx = None, v_confidence = None, v_reason = None\<rparr>"

text \<open>
  The three assignments in their order. \<^verbatim>\<open>int\<close> and \<^verbatim>\<open>float\<close> may raise
  \<^verbatim>\<open>ValueError\<close>, which the loop catches: the result tells whether all three ran
  (\<open>True\<close>), with the variables as the assignments that ran left them.
\<close>

definition assign_fields :: "string \<Rightarrow> string \<Rightarrow> string \<Rightarrow> locals \<Rightarrow> locals \<times> bool" where
  "assign_fields p0 p1 r v =
     (case py_int p0 of
        None \<Rightarrow> (v, False)
      | Some i \<Rightarrow>
          (case py_float p1 of
             None \<Rightarrow> (v\<lparr>v_local_idx := Some i\<rparr>, False)
           | Some c \<Rightarrow>
               (v\<lparr>v_local_idx := Some i, v_confidence := Some c, v_reason := Some r\<rparr>, True)))"

text \<open>
  The call of \<^verbatim>\<open>create_solution_entry\<close> on the variables, read from left to right, and
  the \<^verbatim>\<open>append\<close>.
\<close>

definition emit ::
  "locals \<Rightarrow> int \<Rightarrow> doc list \<Rightarrow> scored_solution list \<Rightarrow> py_exception + scored_solution list" where
  "emit v chunk_offset retrieved_docs solutions =
     (case v_local_idx v of
        None \<Rightarrow> Inl (UnboundLocalError ''local_idx'')
      | Some i \<Rightarrow>
          (case v_confidence v of
             None \<Rightarrow> Inl (UnboundLocalError ''confidence'')
           | Some c \<Rightarrow>
               (case v_reason v of
                  None \<Rightarrow> Inl (UnboundLocalError ''reason'')
                | Some r \<Rightarrow>
                    (case create_solution_entry i c r chunk_offset retrieved_docs of
                       None \<Rightarrow> Inr solutions
                     | Some e \<Rightarrow> Inr (solutions @ [e])))))"

text \<open>
  One line of the response: the variables and the solutions after it, or the exception
  that leaves the loop.
\<close>

definition parse_line ::
  "string \<Rightarrow> int \<Rightarrow> doc list \<Rightarrow> locals \<Rightarrow> scored_solution list
     \<Rightarrow> py_exception + (locals \<times> scored_solution list)" where
  "parse_line l chunk_offset retrieved_docs v solutions =
     (let line = strip l in
      if line = [] then Inr (v, solutions)
      else if CHR ''|'' \<in> set line then
        (let parts = map strip (split_on (CHR ''|'') line) in
         if 3 \<le> length parts \<and> isdigit (parts ! 0) then
           (case assign_fields (parts ! 0) (parts ! 1) (parts ! 2) v of
              (v', True) \<Rightarrow>
                map_sum id (Pair v') (emit v' chunk_offset retrieved_docs solutions)
            | (v', False) \<Rightarrow> Inr (v', solutions))
         else map_sum id (Pair v) (emit v chunk_offset retrieved_docs solutions))
      else
        (let parts = split_max (CHR '' '') 2 line in
         if 2 \<le> length parts \<and> isdigit (parts ! 0) then
           (case assign_fields (parts ! 0) (parts ! 1)
                   (if 2 < length parts then parts ! 2 else ''Selected by LLM'') v of
              (v', True) \<Rightarrow>
                map_sum id (Pair v') (emit v' chunk_offset retrieved_docs solutions)
            | (v', False) \<Rightarrow> Inr (v', solutions))
         else Inr (v, solutions)))"

fun parse_lines ::
  "string list \<Rightarrow> int \<Rightarrow> doc list \<Rightarrow> locals \<Rightarrow> scored_solution list
     \<Rightarrow> py_exception + scored_solution list" where
  "parse_lines [] chunk_offset retrieved_docs v solutions = Inr solutions"
| "parse_lines (l # ls) chunk_offset retrieved_docs v solutions =
     (case parse_line l chunk_offset retrieved_docs v solutions of
        Inl e \<Rightarrow> Inl e
      | Inr (v', solutions') \<Rightarrow> parse_lines ls chunk_offset retrieved_docs v' solutions')"

definition parse_llm_response ::
  "string \<Rightarrow> string list \<Rightarrow> int \<Rightarrow> doc list \<Rightarrow> py_exception + scored_solution list" where
  "parse_llm_response response chunk chunk_offset retrieved_docs =
     (if strip (upper response) = ''NONE'' then Inr []
      else parse_lines (split_on newline response) chunk_offset retrieved_docs unbound [])"

subsection \<open>query\_llm\_model\<close>

text \<open>\<^verbatim>\<open>range(0, n, step)\<close>: a step of zero is a \<^verbatim>\<open>ValueError\<close>, a negative one gives nothing.\<close>

definition py_range :: "nat \<Rightarrow> int \<Rightarrow> py_exception + nat list" where
  "py_range n step =
     (if step = 0 then Inl (ValueError ''range() arg 3 must not be zero'')
      else if step < 0 then Inr []
      else Inr (map (\<lambda>k. k * nat step) [0..<(n + nat step - 1) div nat step]))"

text \<open>
  \<^verbatim>\<open>
  chunk_end = min(chunk_start + chunk_size, len(cleaned_retrieved_docs))
  chunk = cleaned_retrieved_docs[chunk_start:chunk_end]
  \<close>
\<close>

definition chunk_at :: "string list \<Rightarrow> nat \<Rightarrow> nat \<Rightarrow> string list" where
  "chunk_at cleaned_retrieved_docs chunk_start chunk_size =
     (let chunk_end = min (chunk_start + chunk_size) (length cleaned_retrieved_docs)
      in take (chunk_end - chunk_start) (drop chunk_start cleaned_retrieved_docs))"

text \<open>
  The language model is outside the program: \<^verbatim>\<open>ollama.chat\<close> and the reading of
  \<^verbatim>\<open>response["message"]["content"]\<close> either raise or give a text. The prompt is built
  from the issue description and the numbered chunk, which the model receives here; it
  also receives the start of the chunk, so that a service answering the same prompt
  differently on two calls is covered.
\<close>

type_synonym llm = "nat \<Rightarrow> string \<Rightarrow> (nat \<times> string) list \<Rightarrow> py_exception + string"

definition fallback_response :: string where
  "fallback_response = ''0 0.8 Fallback selection - keyword matching applied''"

text \<open>
  \<^verbatim>\<open>
  try:
      response = ollama.chat(model="gpt-oss", messages=[{"role": "user", "content": prompt}])
      raw_response = response["message"]["content"].strip()
  except Exception as e:
      raw_response = f"0 0.8 Fallback selection - keyword matching applied"
  \<close>
\<close>

definition raw_response :: "llm \<Rightarrow> nat \<Rightarrow> string \<Rightarrow> string list \<Rightarrow> string" where
  "raw_response chat chunk_start issue_description chunk =
     (let solutions_text = enumerate 0 chunk in
      case chat chunk_start issue_description solutions_text of
        Inl e \<Rightarrow> fallback_response
      | Inr content \<Rightarrow> strip content)"

text \<open>The body of the loop over the chunks, \<open>final_solutions\<close> being extended in turn.\<close>

fun score_chunks ::
  "llm \<Rightarrow> string list \<Rightarrow> string \<Rightarrow> doc list \<Rightarrow> nat \<Rightarrow> nat list \<Rightarrow> scored_solution list
     \<Rightarrow> py_exception + scored_solution list" where
  "score_chunks chat cleaned issue retrieved_docs chunk_size [] final_solutions =
     Inr final_solutions"
| "score_chunks chat cleaned issue retrieved_docs chunk_size (chunk_start # starts) final_solutions =
     (let chunk = chunk_at cleaned chunk_start chunk_size;
          raw = raw_response chat chunk_start issue chunk
      in case parse_llm_response raw chunk (int chunk_start) retrieved_docs of
           Inl e \<Rightarrow> Inl e
         | Inr solutions \<Rightarrow>
             score_chunks chat cleaned issue retrieved_docs chunk_size starts
               (final_solutions @ solutions))"

text \<open>
  \<^verbatim>\<open>final_solutions.sort(key=lambda x: x.get('confidence', 0), reverse=True)\<close>: a stable
  sort, the greatest confidence first. It is written as an insertion sort on \<^verbatim>\<open><\<close>, the
  one comparison \<^verbatim>\<open>list.sort\<close> makes; every stable sort gives this same list when the
  keys are comparable, that is when none is not-a-number.
\<close>

fun insert_desc :: "scored_solution \<Rightarrow> scored_solution list \<Rightarrow> scored_solution list" where
  "insert_desc x [] = [x]"
| "insert_desc x (y # ys) =
     (if float_lt (confidence x) (confidence y) then y # insert_desc x ys else x # y # ys)"

definition sort_by_confidence_desc :: "scored_solution list \<Rightarrow> scored_solution list" where
  "sort_by_confidence_desc xs = foldr insert_desc xs []"

text \<open>
  \<^verbatim>\<open>confidence * 10\<close>: the product of two doubles is the double nearest to the exact
  product, infinite beyond the range.
\<close>

definition float_times_ten :: "pyfloat \<Rightarrow> pyfloat" where
  "float_times_ten x =
     (case x of
        Finite q \<Rightarrow>
          (let (a, b) = quotient_of q in
           if 0 \<le> a then double_of_fraction (10 * a) b
           else float_neg (double_of_fraction (10 * (- a)) b))
      | PInf \<Rightarrow> PInf
      | NInf \<Rightarrow> NInf
      | NaN \<Rightarrow> NaN)"

text \<open>\<^verbatim>\<open>int(x)\<close> on a float: towards zero; not-a-number and the infinities raise.\<close>

definition int_of_float :: "pyfloat \<Rightarrow> py_exception + int" where
  "int_of_float x =
     (case x of
        Finite q \<Rightarrow> Inr (if 0 \<le> q then \<lfloor>q\<rfloor> else \<lceil>q\<rceil>)
      | PInf \<Rightarrow> Inl (OverflowError ''cannot convert float infinity to integer'')
      | NInf \<Rightarrow> Inl (OverflowError ''cannot convert float infinity to integer'')
      | NaN \<Rightarrow> Inl (ValueError ''cannot convert float NaN to integer''))"

text \<open>
  \<^verbatim>\<open>c * n\<close> for a character \<open>c\<close>: the length of the string, none below one repetition;
  a count above the largest index (\<open>2 ^ 63 - 1\<close>) raises. Below it the string is taken
  to fit into the memory.
\<close>

definition repeat_length :: "int \<Rightarrow> py_exception + nat" where
  "repeat_length n =
     (if 2 ^ 63 - 1 < n then Inl (OverflowError ''cannot fit int into an index-sized integer'')
      else Inr (nat n))"

text \<open>
  \<^verbatim>\<open>
  confidence_bar = "#" * int(solution.get('confidence', 0) * 10)
                 + "-" * (10 - int(solution.get('confidence', 0) * 10))
  \<close>
  (the two characters are block characters in the source): the lengths of the two runs.
\<close>

definition confidence_bar :: "pyfloat \<Rightarrow> py_exception + (nat \<times> nat)" where
  "confidence_bar x =
     (case int_of_float (float_times_ten x) of
        Inl e \<Rightarrow> Inl e
      | Inr k \<Rightarrow>
          (case repeat_length k of
             Inl e \<Rightarrow> Inl e
           | Inr filled \<Rightarrow>
               (case repeat_length (10 - k) of
                  Inl e \<Rightarrow> Inl e
                | Inr blank \<Rightarrow> Inr (filled, blank))))"

text \<open>
  The loop that prints the solutions, each with its bar: the first exception leaves it.
\<close>

fun print_solutions :: "scored_solution list \<Rightarrow> py_exception option" where
  "print_solutions [] = None"
| "print_solutions (x # xs) =
     (case confidence_bar (confidence x) of
        Inl e \<Rightarrow> Some e
      | Inr bar \<Rightarrow> print_solutions xs)"

text \<open>
  \<^verbatim>\<open>
  def display_hackathon_results(final_solutions, issue_description):
      if final_solutions and isinstance(final_solutions[0], dict)
              and 'confidence' in final_solutions[0]:
          final_solutions.sort(key=lambda x: x.get('confidence', 0), reverse=True)
          ... (the header is printed)
          for i, solution in enumerate(final_solutions, 1):
              confidence_bar = ... (as above)
              ... (the solution is printed)
  \<close>
  The list is sorted in place: the result here is the list as the caller sees it
  afterwards, or the exception of the loop. Every entry is a dictionary with the key
  \<^verbatim>\<open>confidence\<close>.
\<close>

definition display_hackathon_results ::
  "scored_solution list \<Rightarrow> py_exception + scored_solution list" where
  "display_hackathon_results final_solutions =
     (if final_solutions \<noteq> [] then
        (let sorted = sort_by_confidence_desc final_solutions in
         case print_solutions sorted of
           Some e \<Rightarrow> Inl e
         | None \<Rightarrow> Inr sorted)
      else Inr final_solutions)"

text \<open>
  \<^verbatim>\<open>
  def query_llm_model(cleaned_retrieved_docs, issue_description, retrieved_docs, chunk_size=10):
      if not retrieved_docs:
          return []
      final_solutions = []
      for chunk_start in range(0, len(cleaned_retrieved_docs), chunk_size):
          ... (the chunk, the prompt, the call, the parsing)
          final_solutions.extend(solutions)
      display_hackathon_results(final_solutions, issue_description)
      return final_solutions
  \<close>
\<close>

definition query_llm_model ::
  "llm \<Rightarrow> string list \<Rightarrow> string \<Rightarrow> doc list \<Rightarrow> int \<Rightarrow> py_exception + scored_solution list" where
  "query_llm_model chat cleaned_retrieved_docs issue_description retrieved_docs chunk_size =
     (if retrieved_docs = [] then Inr []
      else case py_range (length cleaned_retrieved_docs) chunk_size of
             Inl e \<Rightarrow> Inl e
           | Inr starts \<Rightarrow>
               (case score_chunks chat cleaned_retrieved_docs issue_description retrieved_docs
                       (nat chunk_size) starts [] of
                  Inl e \<Rightarrow> Inl e
                | Inr final_solutions \<Rightarrow> display_hackathon_results final_solutions))"

subsection \<open>The knowledge base\<close>

text \<open>An issue is the dictionary with the keys \<^verbatim>\<open>failure\<close>, \<^verbatim>\<open>root_cause\<close>, \<^verbatim>\<open>solution\<close>.\<close>

record issue =
  i_failure :: "string option"
  i_root_cause :: "string option"
  i_solution :: "string option"

text \<open>
  What \<^verbatim>\<open>load_from_database\<close> finds: no database file, a database whose reading raises,
  or the rows of the table \<^verbatim>\<open>devops_issues\<close>.
\<close>

datatype database =
    NoFile
  | Broken py_exception
  | Rows "(string option \<times> string option \<times> string option) list"

text \<open>
  \<^verbatim>\<open>
  def load_from_database():
      try:
          if not os.path.exists(db_path):
              return None
          ...
          rows = cursor.fetchall()
          issues = []
          for row in rows:
              issues.append({"failure": row[0], "root_cause": row[1], "solution": row[2]})
          return issues
      except Exception as e:
          return None
  \<close>
\<close>

definition load_from_database :: "database \<Rightarrow> issue list option" where
  "load_from_database db =
     (case db of
        NoFile \<Rightarrow> None
      | Broken e \<Rightarrow> None
      | Rows rows \<Rightarrow>
          Some (map (\<lambda>(f, r, s). \<lparr>i_failure = f, i_root_cause = r, i_solution = s\<rparr>) rows))"

definition create_devops_knowledge_base :: "issue list" where
  "create_devops_knowledge_base =
    [
     \<lparr>i_failure = Some (''Docker Build Failure - Permission Denied''),
      i_root_cause = Some (''Docker build fails with permission denied error when user '' @
        ''lacks proper Docker daemon access rights''),
      i_solution = Some (''1. Add user to docker group: sudo usermod -aG docker $USER 2. '' @
        ''Restart Docker service: sudo systemctl restart docker 3. Check Docker daemon '' @
        ''permissions: sudo chmod 666 /var/run/docker.sock'')\<rparr>,
     \<lparr>i_failure = Some (''Jenkins Build Timeout''),
      i_root_cause = Some (''Jenkins builds exceed configured timeout limits due to '' @
        ''resource constraints or inefficient build processes''),
      i_solution = Some (''1. Increase build timeout in Jenkins job configuration 2. '' @
        ''Optimize build steps and remove unnecessary operations 3. Check system '' @
        ''resources (CPU, memory, disk) 4. Review build logs for bottlenecks'')\<rparr>,
     \<lparr>i_failure = Some (''Kubernetes Pod CrashLoopBackOff''),
      i_root_cause = Some (''Pod continuously crashes and restarts due to application '' @
        ''errors, resource limits, or misconfiguration''),
      i_solution = Some (''1. Check pod logs: kubectl logs <pod-name> 2. Verify resource '' @
        ''limits and requests 3. Check liveness/readiness probes 4. Review container '' @
        ''startup command and environment variables'')\<rparr>,
     \<lparr>i_failure = Some (''GitLab CI Pipeline Failure - Dependency Issues''),
      i_root_cause = Some (''Pipeline fails due to missing, incompatible, or outdated '' @
        ''dependencies in the build environment''),
      i_solution = Some (''1. Update package versions in requirements/package files 2. '' @
        ''Clear dependency cache: rm -rf node_modules, pip cache purge 3. Lock dependency '' @
        ''versions 4. Verify package registry connectivity'')\<rparr>,
     \<lparr>i_failure = Some (''Unable to find image '' @
       '''' @ [CHR 0x27] @ ''nginx:latest'' @ [CHR 0x27] @ '' locally docker: Error '' @
       ''response from daemon: toomanyrequests''),
      i_root_cause = Some (''Docker Hub rate limiting exceeded. Anonymous pulls limited '' @
        ''to 100 per 6 hours, authenticated users get 200 per 6 hours''),
      i_solution = Some (''1. Login to Docker Hub: docker login 2. Use Docker Hub '' @
        ''Pro/Team account for higher limits 3. Implement image caching strategy 4. Use '' @
        ''alternative registries or mirrors'')\<rparr>,
     \<lparr>i_failure = Some (''Branch not set issue - HEAD detached from FETCH_HEAD''),
      i_root_cause = Some (''Git repository is in detached HEAD state, usually after '' @
        ''pulling changes without proper branch checkout''),
      i_solution = Some (''1. Create and switch to branch: git checkout -b <branch-name> '' @
        ''2. Or switch to existing branch: git checkout <branch-name> 3. Push changes: '' @
        ''git push origin <branch-name>'')\<rparr>,
     \<lparr>i_failure = Some (''Ansible Playbook Failed - SSH Connection Timeout''),
      i_root_cause = Some (''Ansible cannot establish SSH connection to target hosts due '' @
        ''to network issues, authentication problems, or firewall restrictions''),
      i_solution = Some (''1. Verify SSH connectivity: ssh user@host 2. Check SSH keys: '' @
        ''ssh-add -l 3. Update inventory with correct IPs/hostnames 4. Configure SSH '' @
        ''timeout in ansible.cfg'')\<rparr>,
     \<lparr>i_failure = Some (''Terraform Apply Failed - Resource Already Exists''),
      i_root_cause = Some (''Terraform tries to create resources that already exist, '' @
        ''usually due to state file mismatch or manual resource creation outside Terraform''),
      i_solution = Some (''1. Import existing resources: terraform import 2. Update state '' @
        ''file: terraform refresh 3. Use terraform plan to review changes 4. Consider '' @
        ''using data sources for existing resources'')\<rparr>
    ]"

text \<open>
  \<^verbatim>\<open>
  for i, issue in enumerate(db_issues):
      data.append((i, issue["failure"], issue["root_cause"], issue["solution"]))
  \<close>
\<close>

definition numbered :: "issue list \<Rightarrow> doc list" where
  "numbered issues =
     map (\<lambda>(i, x). \<lparr>doc_id = i, failure = i_failure x, root_cause = i_root_cause x,
                     solution = i_solution x\<rparr>)
       (enumerate 0 issues)"

text \<open>
  \<^verbatim>\<open>
  def get_devops_knowledgebase():
      db_issues = load_from_database()
      if db_issues:
          ... (numbered as above)
          return data
      knowledge_base = create_devops_knowledge_base()
      ... (numbered as above)
      return data
  \<close>
  \<^verbatim>\<open>if db_issues\<close> fails for \<^verbatim>\<open>None\<close> and for the empty list.
\<close>

definition get_devops_knowledgebase :: "database \<Rightarrow> doc list" where
  "get_devops_knowledgebase db =
     (case load_from_database db of
        Some (x # xs) \<Rightarrow> numbered (x # xs)
      | _ \<Rightarrow> numbered create_devops_knowledge_base)"

subsection \<open>query\_faiss\_index\<close>

text \<open>The text a knowledge entry is indexed and shown to the language model under.\<close>

definition clean_doc :: "doc \<Rightarrow> string" where
  "clean_doc row = ''failure: '' @ clean_text (failure row) @ '', root_cause: ''
     @ clean_text (root_cause row) @ '', solution: '' @ clean_text (solution row)"

text \<open>\<^verbatim>\<open>xs[i]\<close>: a negative index counts from the end; \<open>None\<close> is the \<^verbatim>\<open>IndexError\<close>.\<close>

definition py_index :: "'a list \<Rightarrow> int \<Rightarrow> 'a option" where
  "py_index xs i =
     (if 0 \<le> i \<and> i < int (length xs) then Some (xs ! nat i)
      else if - int (length xs) \<le> i \<and> i < 0 then Some (xs ! nat (int (length xs) + i))
      else None)"

text \<open>\<^verbatim>\<open>[indexed_data[idx] for idx in indices[0] if idx != -1]\<close>\<close>

fun lookup_all :: "doc list \<Rightarrow> int list \<Rightarrow> doc list option" where
  "lookup_all indexed_data [] = Some []"
| "lookup_all indexed_data (idx # rest) =
     (if idx = - 1 then lookup_all indexed_data rest
      else case py_index indexed_data idx of
             None \<Rightarrow> None
           | Some d \<Rightarrow> map_option ((#) d) (lookup_all indexed_data rest))"

text \<open>
  \<^verbatim>\<open>
  def query_faiss_index(embedding_model, query):
      try:
          index = faiss.read_index(index_path)
          query_embedding = embedding_model.encode(query)
          query_embedding = np.array([query_embedding])
          k = 5
          with open(data_path, "rb") as f:
              indexed_data = pickle.load(f)
          distances, indices = index.search(query_embedding, k)
          retrieved_docs = [indexed_data[idx] for idx in indices[0] if idx != -1]
          clean_retrieved_docs = [f"failure: {clean_text(row[1])}, ..." for row in retrieved_docs]
          return clean_retrieved_docs, retrieved_docs
      except FileNotFoundError as e:
          return [], []
      except Exception as e:
          return [], []
  \<close>
  The four calls that leave the program are parameters, each raising or giving its
  value: the reading of the index file, the encoding of the query, the reading of the
  metadata file, and the search. \<open>query_faiss_index_try\<close> is the body of the \<^verbatim>\<open>try\<close>.
\<close>

definition query_faiss_index_try ::
  "(py_exception + 'ix) \<Rightarrow> (string \<Rightarrow> py_exception + 'vec) \<Rightarrow> (py_exception + doc list)
     \<Rightarrow> ('ix \<Rightarrow> 'vec \<Rightarrow> nat \<Rightarrow> py_exception + int list) \<Rightarrow> string
     \<Rightarrow> py_exception + (string list \<times> doc list)" where
  "query_faiss_index_try read_index encode load_data search query =
     (case read_index of
        Inl e \<Rightarrow> Inl e
      | Inr index \<Rightarrow>
          (case encode query of
             Inl e \<Rightarrow> Inl e
           | Inr query_embedding \<Rightarrow>
               (case load_data of
                  Inl e \<Rightarrow> Inl e
                | Inr indexed_data \<Rightarrow>
                    (case search index query_embedding 5 of
                       Inl e \<Rightarrow> Inl e
                     | Inr indices \<Rightarrow>
                         (case lookup_all indexed_data indices of
                            None \<Rightarrow> Inl (OtherException ''IndexError'')
                          | Some retrieved_docs \<Rightarrow>
                              Inr (map clean_doc retrieved_docs, retrieved_docs))))))"

definition query_faiss_index ::
  "(py_exception + 'ix) \<Rightarrow> (string \<Rightarrow> py_exception + 'vec) \<Rightarrow> (py_exception + doc list)
     \<Rightarrow> ('ix \<Rightarrow> 'vec \<Rightarrow> nat \<Rightarrow> py_exception + int list) \<Rightarrow> string
     \<Rightarrow> string list \<times> doc list" where
  "query_faiss_index read_index encode load_data search query =
     (case query_faiss_index_try read_index encode load_data search query of
        Inl e \<Rightarrow> ([], [])
      | Inr r \<Rightarrow> r)"

subsection \<open>main\<close>

text \<open>
  What lies outside the program, each call raising or giving its value:
  the standard output, the loading of the embedding model (\<^verbatim>\<open>get_embedding_model\<close>),
  the query that \<^verbatim>\<open>get_actual_devops_data\<close> makes of the input (the input itself, or the
  error lines of a pipeline log fetched over the network), the database, the building
  of the vector index from the cleaned texts, the writing of the two files, their
  reading, the encoding of the query, the search, and the language model.

  The standard output either takes every line (\<open>None\<close>) or refuses every line with an
  exception, as a stream does that is closed or cannot encode the characters of the
  banner; a stream that fails after some lines is not modelled. The functions above are
  written for a standard output that takes every line; \<open>main\<close> is reached with the
  other one only to find its first \<^verbatim>\<open>print\<close> raise.
\<close>

record ('m, 'ix, 'vec, 'fs) world =
  w_stdout :: "py_exception option"
  w_embedding_model :: "py_exception + 'm"
  w_actual_data :: "string \<Rightarrow> py_exception + string"
  w_database :: database
  w_build_index :: "'m \<Rightarrow> string list \<Rightarrow> py_exception + 'ix"
  w_write_files :: "'ix \<Rightarrow> doc list \<Rightarrow> py_exception + 'fs"
  w_read_index :: "'fs \<Rightarrow> py_exception + 'ix"
  w_load_data :: "'fs \<Rightarrow> py_exception + doc list"
  w_encode :: "'m \<Rightarrow> string \<Rightarrow> py_exception + 'vec"
  w_search :: "'ix \<Rightarrow> 'vec \<Rightarrow> nat \<Rightarrow> py_exception + int list"
  w_chat :: llm

text \<open>
  \<^verbatim>\<open>vectorize_devops_data\<close>: the texts are cleaned, encoded and indexed, the index and
  the data are written; every exception is raised again.
\<close>

definition vectorize_devops_data ::
  "('m, 'ix, 'vec, 'fs) world \<Rightarrow> doc list \<Rightarrow> 'm \<Rightarrow> py_exception + 'fs" where
  "vectorize_devops_data w data model =
     (case w_build_index w model (map clean_doc data) of
        Inl e \<Rightarrow> Inl e
      | Inr index \<Rightarrow> w_write_files w index data)"

text \<open>
  The lines \<open>main\<close> itself prints: the seven lines of the banner, the two lines at the
  start of the analysis, and the line of the \<^verbatim>\<open>except\<close> clause, which holds the text of
  the exception. What the functions it calls print in between is not recorded.
\<close>

datatype printed =
    Banner nat
  | Input_query string
  | Starting_pipeline
  | Analysis_error py_exception

text \<open>
  \<^verbatim>\<open>
  def main(input_query=None):
      print("\n" + ... * 50)
      ... (six more lines of the banner are printed)
      try:
          model = get_embedding_model()
          if input_query is None:
              input_query = "Jenkins build failed with timeout error"
          print(f"\n... Input Query: {input_query}")
          print(f"... Starting AI Analysis Pipeline...")
          resp, query = get_actual_devops_data(input_query)
          vectorize_devops_data(get_devops_knowledgebase(), model)
          cleaned_retrieved_docs, retrieved_docs = query_faiss_index(model, query)
          solutions = query_llm_model(cleaned_retrieved_docs, query, retrieved_docs)
          trigger_notification(resp, solutions)
          return solutions
      except Exception as e:
          print(f"... Error in DevOps analysis: {e}")
          return []
  \<close>
  \<open>main_try\<close> is the body of the \<^verbatim>\<open>try\<close>, for a standard output that takes every line:
  the lines it prints, and the solutions or the exception that leaves it.
  \<^verbatim>\<open>trigger_notification\<close> prints two lines and changes nothing.
\<close>

definition main_try ::
  "('m, 'ix, 'vec, 'fs) world \<Rightarrow> string option
     \<Rightarrow> printed list \<times> (py_exception + scored_solution list)" where
  "main_try w input_query =
     (case w_embedding_model w of
        Inl e \<Rightarrow> ([], Inl e)
      | Inr model \<Rightarrow>
          (let input = (case input_query of
                          None \<Rightarrow> ''Jenkins build failed with timeout error''
                        | Some q \<Rightarrow> q);
               lines = [Input_query input, Starting_pipeline]
           in case w_actual_data w input of
                Inl e \<Rightarrow> (lines, Inl e)
              | Inr query \<Rightarrow>
                  (case vectorize_devops_data w (get_devops_knowledgebase (w_database w)) model of
                     Inl e \<Rightarrow> (lines, Inl e)
                   | Inr files \<Rightarrow>
                       (let (cleaned_retrieved_docs, retrieved_docs) =
                              query_faiss_index (w_read_index w files) (w_encode w model)
                                (w_load_data w files) (w_search w) query
                        in (lines, query_llm_model (w_chat w) cleaned_retrieved_docs query
                                     retrieved_docs 10)))))"

text \<open>
  \<open>main\<close>: what it has printed, and what it returns (\<open>Inr\<close>) or raises (\<open>Inl\<close>). The
  banner is printed before the \<^verbatim>\<open>try\<close>: an exception of its first \<^verbatim>\<open>print\<close> leaves
  \<open>main\<close>.
\<close>

definition main ::
  "('m, 'ix, 'vec, 'fs) world \<Rightarrow> string option
     \<Rightarrow> printed list \<times> (py_exception + scored_solution list)" where
  "main w input_query =
     (case w_stdout w of
        Some e \<Rightarrow> ([], Inl e)
      | None \<Rightarrow>
          (let banner = map Banner [0..<7];
               (lines, outcome) = main_try w input_query
           in case outcome of
                Inr solutions \<Rightarrow> (banner @ lines, Inr solutions)
              | Inl e \<Rightarrow> (banner @ lines @ [Analysis_error e], Inr [])))"

subsection \<open>Surroundings to run the program in\<close>

text \<open>
  A language model that answers every prompt with the same text, and one that cannot be
  reached.
\<close>

definition canned_chat :: "string \<Rightarrow> llm" where
  "canned_chat answer = (\<lambda>chunk_start issue solutions_text. Inr answer)"

definition unreachable_chat :: llm where
  "unreachable_chat =
     (\<lambda>chunk_start issue solutions_text. Inl (OtherException ''connection refused''))"


section \<open>Properties\<close>

subsection \<open>The text cleaner\<close>

lemma not_word_space_dot: "\<not> is_word (CHR ''.'')" "\<not> is_space (CHR ''.'')"
  by (simp_all add: is_word_def is_space_def code_def)

lemma not_word_space_star: "\<not> is_word (CHR ''*'')" "\<not> is_space (CHR ''*'')"
  by (simp_all add: is_word_def is_space_def code_def)

lemma list_marker_at_no_dot:
  "CHR ''.'' \<notin> set s \<Longrightarrow> list_marker_at pw s = None"
proof -
  assume a: "CHR ''.'' \<notin> set s"
  have "set (dropWhile is_decimal s) \<subseteq> set s" by (rule set_dropWhileD [THEN subsetI])
  with a have "CHR ''.'' \<notin> set (dropWhile is_decimal s)" by blast
  then show ?thesis
    by (auto simp: list_marker_at_def split: list.splits)
qed

lemma sub_list_marker_no_dot:
  "CHR ''.'' \<notin> set s \<Longrightarrow> sub_list_marker pw s = s"
proof (induction s arbitrary: pw)
  case Nil
  then show ?case by simp
next
  case (Cons c cs)
  then have "list_marker_at pw (c # cs) = None" by (intro list_marker_at_no_dot)
  with Cons show ?case by simp
qed

lemma list_marker_at_set:
  "list_marker_at pw s = Some r \<Longrightarrow> set r \<subseteq> set s"
proof -
  assume "list_marker_at pw s = Some r"
  then obtain d where "dropWhile is_decimal s = d # r"
    by (auto simp: list_marker_at_def split: if_splits list.splits)
  then have "set r \<subseteq> set (dropWhile is_decimal s)" by auto
  also have "\<dots> \<subseteq> set s" by (rule set_dropWhileD [THEN subsetI])
  finally show ?thesis .
qed

lemma sub_list_marker_set: "set (sub_list_marker pw s) \<subseteq> set s"
proof (induction pw s rule: sub_list_marker.induct)
  case (1 pw)
  then show ?case by simp
next
  case (2 pw c cs)
  show ?case
  proof (cases "list_marker_at pw (c # cs)")
    case None
    with 2 show ?thesis by auto
  next
    case (Some r)
    with 2 have "set (sub_list_marker False r) \<subseteq> set r" by simp
    with Some list_marker_at_set [OF Some] show ?thesis by auto
  qed
qed

lemma replace_newlines_set: "newline \<notin> set (replace_newlines s)"
  by (induction s) (auto simp: replace_newlines_def newline_def)

lemma replace_newlines_id: "newline \<notin> set s \<Longrightarrow> replace_newlines s = s"
  by (induction s) (auto simp: replace_newlines_def)

lemma clean_text_chars:
  assumes "c \<in> set (clean_text x)"
  shows "(is_word c \<or> is_space c) \<and> c \<noteq> newline"
proof (cases x)
  case None
  with assms show ?thesis by (simp add: clean_text_def)
next
  case (Some t)
  let ?t2 = "replace_newlines (filter (\<lambda>c. c \<noteq> CHR ''*'') t)"
  from assms Some have w: "is_word c \<or> is_space c" and m: "c \<in> set (sub_list_marker False ?t2)"
    by (auto simp: clean_text_def Let_def)
  from m sub_list_marker_set have "c \<in> set ?t2" by blast
  with replace_newlines_set have "c \<noteq> newline" by metis
  with w show ?thesis by simp
qed

text \<open>
  C7. The text cleaner is idempotent: cleaning an already cleaned text gives it back
  unchanged, for every input, the absent one (\<open>None\<close>) included.
\<close>

theorem clean_text_idempotent:
  "clean_text (Some (clean_text x)) = clean_text x"
proof -
  let ?r = "clean_text x"
  have ch: "\<And>c. c \<in> set ?r \<Longrightarrow> (is_word c \<or> is_space c) \<and> c \<noteq> newline"
    by (rule clean_text_chars)
  have star: "filter (\<lambda>c. c \<noteq> CHR ''*'') ?r = ?r"
    using ch not_word_space_star by (intro filter_True) metis
  have nl: "replace_newlines ?r = ?r"
    using ch by (intro replace_newlines_id) blast
  have "CHR ''.'' \<notin> set ?r"
    using ch not_word_space_dot by blast
  then have dot: "sub_list_marker False ?r = ?r"
    by (rule sub_list_marker_no_dot)
  have keep: "filter (\<lambda>c. is_word c \<or> is_space c) ?r = ?r"
    using ch by (intro filter_True) blast
  show ?thesis
    by (simp add: clean_text_def [of "Some ?r"] star nl dot keep)
qed

subsection \<open>Admission of a solution\<close>

lemma create_solution_entry_Some:
  assumes "create_solution_entry i c r off docs = Some e"
  shows "\<not> float_le c threshold" and "0 \<le> off + i" and "off + i < int (length docs)"
    and "global_index e = off + i" and "confidence e = c" and "reason e = r"
  using assms by (auto simp: create_solution_entry_def Let_def split: if_splits)

text \<open>
  Whatever holds of every entry \<open>create_solution_entry\<close> can make from the candidate
  list holds of every solution of the parser and of the scorer.
\<close>

lemma emit_preserves:
  assumes "\<forall>i c r e. create_solution_entry i c r off docs = Some e \<longrightarrow> P e"
    and "emit v off docs sols = Inr sols'" and "\<forall>s \<in> set sols. P s"
  shows "\<forall>s \<in> set sols'. P s"
  using assms by (auto simp: emit_def split: option.splits)

lemma parse_line_preserves:
  assumes c: "\<forall>i c r e. create_solution_entry i c r off docs = Some e \<longrightarrow> P e"
    and p: "parse_line l off docs v sols = Inr (v', sols')" and a: "\<forall>s \<in> set sols. P s"
  shows "\<forall>s \<in> set sols'. P s"
proof -
  have e: "\<And>w out. emit w off docs sols = Inr out \<Longrightarrow> \<forall>s \<in> set out. P s"
    using emit_preserves c a by blast
  have m: "\<And>w x. map_sum id (Pair w) (emit w off docs sols) = Inr x \<Longrightarrow> \<forall>s \<in> set (snd x). P s"
  proof -
    fix w x
    assume "map_sum id (Pair w) (emit w off docs sols) = Inr x"
    then obtain out where "emit w off docs sols = Inr out" and "x = (w, out)"
      by (cases "emit w off docs sols") auto
    with e show "\<forall>s \<in> set (snd x). P s" by simp
  qed
  from p consider
      "sols' = sols"
    | w where "map_sum id (Pair w) (emit w off docs sols) = Inr (v', sols')"
    by (auto simp: parse_line_def Let_def split: if_splits prod.splits bool.splits)
  then show ?thesis
  proof cases
    case 1
    with a show ?thesis by simp
  next
    case 2
    from m [OF 2] show ?thesis by simp
  qed
qed

lemma parse_lines_preserves:
  assumes c: "\<forall>i c r e. create_solution_entry i c r off docs = Some e \<longrightarrow> P e"
  shows "parse_lines ls off docs v sols = Inr out \<Longrightarrow> \<forall>s \<in> set sols. P s
    \<Longrightarrow> \<forall>s \<in> set out. P s"
proof (induction ls arbitrary: v sols)
  case Nil
  then show ?case by simp
next
  case (Cons l ls)
  from Cons.prems(1) obtain v' sols' where
    1: "parse_line l off docs v sols = Inr (v', sols')" and
    2: "parse_lines ls off docs v' sols' = Inr out"
    by (auto split: sum.splits)
  from parse_line_preserves [OF c 1 Cons.prems(2)]
  have "\<forall>s \<in> set sols'. P s" .
  with Cons.IH 2 show ?case by blast
qed

lemma parse_llm_response_preserves:
  assumes c: "\<forall>i c r e. create_solution_entry i c r off docs = Some e \<longrightarrow> P e"
    and p: "parse_llm_response response chunk off docs = Inr out"
  shows "\<forall>s \<in> set out. P s"
proof (cases "strip (upper response) = ''NONE''")
  case True
  with p show ?thesis by (simp add: parse_llm_response_def)
next
  case False
  with p have "parse_lines (split_on newline response) off docs unbound [] = Inr out"
    by (simp add: parse_llm_response_def)
  from parse_lines_preserves [OF c this] show ?thesis by simp
qed

lemma score_chunks_preserves:
  assumes c: "\<forall>i c r off e. create_solution_entry i c r off docs = Some e \<longrightarrow> P e"
  shows "score_chunks chat cleaned issue docs n starts acc = Inr out
    \<Longrightarrow> \<forall>s \<in> set acc. P s \<Longrightarrow> \<forall>s \<in> set out. P s"
proof (induction starts arbitrary: acc)
  case Nil
  then show ?case by simp
next
  case (Cons st starts)
  let ?chunk = "chunk_at cleaned st n"
  let ?raw = "raw_response chat st issue ?chunk"
  from Cons.prems(1) obtain sols where
    1: "parse_llm_response ?raw ?chunk (int st) docs = Inr sols" and
    2: "score_chunks chat cleaned issue docs n starts (acc @ sols) = Inr out"
    by (auto simp: Let_def split: sum.splits)
  from c have "\<forall>i c r e. create_solution_entry i c r (int st) docs = Some e \<longrightarrow> P e"
    by blast
  from parse_llm_response_preserves [OF this 1]
  have "\<forall>s \<in> set sols. P s" .
  with Cons.prems(2) have "\<forall>s \<in> set (acc @ sols). P s" by auto
  with Cons.IH 2 show ?case by blast
qed

lemma set_insert_desc: "set (insert_desc x ys) = insert x (set ys)"
  by (induction ys) auto

lemma set_sort_by_confidence_desc: "set (sort_by_confidence_desc xs) = set xs"
  by (induction xs) (simp_all add: sort_by_confidence_desc_def set_insert_desc)

lemma display_hackathon_results_Inr:
  "display_hackathon_results xs = Inr ys \<Longrightarrow> ys = sort_by_confidence_desc xs"
  by (auto simp: display_hackathon_results_def Let_def sort_by_confidence_desc_def
      split: if_splits option.splits)

lemma set_display_hackathon_results:
  "display_hackathon_results xs = Inr ys \<Longrightarrow> set ys = set xs"
  by (auto dest!: display_hackathon_results_Inr simp: set_sort_by_confidence_desc)

lemma query_llm_model_preserves:
  assumes c: "\<forall>i c r off e. create_solution_entry i c r off docs = Some e \<longrightarrow> P e"
    and q: "query_llm_model chat cleaned issue docs n = Inr out"
  shows "\<forall>s \<in> set out. P s"
proof (cases "docs = []")
  case True
  with q show ?thesis by (simp add: query_llm_model_def)
next
  case False
  with q obtain starts final where
    1: "score_chunks chat cleaned issue docs (nat n) starts [] = Inr final" and
    2: "display_hackathon_results final = Inr out"
    by (auto simp: query_llm_model_def split: sum.splits)
  from score_chunks_preserves [OF c 1] have "\<forall>s \<in> set final. P s" by simp
  with set_display_hackathon_results [OF 2] show ?thesis by simp
qed

text \<open>
  C1, at the response \<^verbatim>\<open>0 nan x\<close>. \<^verbatim>\<open>float("nan")\<close> is a float and \<^verbatim>\<open>nan <= 0.6\<close> is
  false, so the entry is admitted: the returned list holds a solution whose confidence
  is not greater than 0.6.
\<close>

theorem nan_confidence_is_admitted:
  "parse_llm_response ''0 nan x'' [''c'']  0
     [\<lparr>doc_id = 0, failure = Some ''f'', root_cause = Some ''r'', solution = Some ''s''\<rparr>]
   = Inr [\<lparr>Failure = Some ''f'', Root_Cause = Some ''r'', Solution = Some ''s'',
            confidence = NaN, reason = ''x'', global_index = 0\<rparr>]
   \<and> \<not> float_lt threshold NaN"
  by code_simp

text \<open>
  C2, at the response \<^verbatim>\<open>a | b\<close>. The line holds a bar and has fewer than three parts;
  this branch has no \<^verbatim>\<open>continue\<close>, so \<^verbatim>\<open>create_solution_entry\<close> is called on variables
  no line has assigned: \<^verbatim>\<open>UnboundLocalError\<close> leaves \<^verbatim>\<open>parse_llm_response\<close>.
\<close>

theorem malformed_pipe_line_raises:
  "parse_llm_response ''a | b'' [''c''] 0
     [\<lparr>doc_id = 0, failure = Some ''f'', root_cause = Some ''r'', solution = Some ''s''\<rparr>]
   = Inl (UnboundLocalError ''local_idx'')"
  by code_simp

text \<open>
  C5. An entry whose global index, the chunk offset plus the local index, is outside the
  candidate list is discarded, and the global index of every solution the scorer returns
  is a position of the candidate list.
\<close>

theorem global_index_in_bounds:
  "(\<not> (0 \<le> off + i \<and> off + i < int (length docs))
      \<longrightarrow> create_solution_entry i c r off docs = None)
   \<and> (query_llm_model chat cleaned issue docs n = Inr out \<longrightarrow>
      (\<forall>s \<in> set out. 0 \<le> global_index s \<and> global_index s < int (length docs)))"
proof (intro conjI impI)
  assume "\<not> (0 \<le> off + i \<and> off + i < int (length docs))"
  then show "create_solution_entry i c r off docs = None"
    by (auto simp: create_solution_entry_def Let_def)
next
  assume q: "query_llm_model chat cleaned issue docs n = Inr out"
  have "\<forall>i c r off e. create_solution_entry i c r off docs = Some e
      \<longrightarrow> 0 \<le> global_index e \<and> global_index e < int (length docs)"
    by (auto simp: create_solution_entry_def Let_def split: if_splits)
  from query_llm_model_preserves [OF this q]
  show "\<forall>s \<in> set out. 0 \<le> global_index s \<and> global_index s < int (length docs)" .
qed

theorem global_index_in_bounds_witness:
  "\<not> (0 \<le> (0::int) + 5 \<and> (0::int) + 5 < int (length
        [\<lparr>doc_id = 0, failure = Some ''f'', root_cause = Some ''r'', solution = Some ''s''\<rparr>]))
   \<and> create_solution_entry 5 (Finite 1) ''x'' 0
        [\<lparr>doc_id = 0, failure = Some ''f'', root_cause = Some ''r'', solution = Some ''s''\<rparr>]
      = None
   \<and> query_llm_model (canned_chat ''0 0.75 a'') [''c''] ''q''
        [\<lparr>doc_id = 0, failure = Some ''f'', root_cause = Some ''r'', solution = Some ''s''\<rparr>] 10
      = Inr [\<lparr>Failure = Some ''f'', Root_Cause = Some ''r'', Solution = Some ''s'',
               confidence = Finite (3 / 4), reason = ''a'', global_index = 0\<rparr>]
   \<and> (0::int) \<le> 0 \<and> (0::int) < int (length
        [\<lparr>doc_id = 0, failure = Some ''f'', root_cause = Some ''r'', solution = Some ''s''\<rparr>])"
proof -
  let ?docs = "[\<lparr>doc_id = 0, failure = Some ''f'', root_cause = Some ''r'',
    solution = Some ''s''\<rparr>]"
  let ?sol = "\<lparr>Failure = Some ''f'', Root_Cause = Some ''r'', Solution = Some ''s'',
    confidence = Finite (3 / 4), reason = ''a'', global_index = 0\<rparr>"
  have q: "query_llm_model (canned_chat ''0 0.75 a'') [''c''] ''q'' ?docs 10 = Inr [?sol]"
    by code_simp
  from global_index_in_bounds [where off = 0 and i = 5 and docs = ?docs and c = "Finite 1"
      and r = "''x''" and chat = "canned_chat ''0 0.75 a''" and cleaned = "[''c'']"
      and issue = "''q''" and n = 10 and out = "[?sol]"] q
  show ?thesis by simp
qed

subsection \<open>The knowledge base and the retrieval\<close>

lemma doc_id_numbered: "map doc_id (numbered xs) = [0..<length xs]"
proof -
  have "map doc_id (numbered xs) = map fst (enumerate 0 xs)"
    by (simp add: numbered_def case_prod_unfold comp_def)
  also have "\<dots> = [0..<length xs]"
    by (simp add: map_fst_enumerate)
  finally show ?thesis .
qed

lemma length_numbered: "length (numbered xs) = length xs"
  by (simp add: numbered_def)

text \<open>
  C10. Whether the entries come from the database or from the built-in list, the ids of
  the returned sequence are the positions 0, 1, ..., n - 1 in this order: consecutive,
  unique, each the position of its entry.
\<close>

theorem knowledgebase_ids_are_positions:
  "map doc_id (get_devops_knowledgebase db) = [0..<length (get_devops_knowledgebase db)]"
  by (simp add: get_devops_knowledgebase_def doc_id_numbered length_numbered
      split: option.split list.split)

text \<open>
  C9. When the reading of the index file or of the metadata file raises, the retrieval
  returns the two empty lists.
\<close>

theorem retrieval_unavailable_gives_no_candidates:
  assumes "isl read_index \<or> isl load_data"
  shows "query_faiss_index read_index encode load_data search query = ([], [])"
  using assms
  by (auto simp: query_faiss_index_def query_faiss_index_try_def split: sum.splits)

theorem retrieval_unavailable_gives_no_candidates_witness:
  "(isl (Inl (OtherException ''no index file'') :: py_exception + unit)
      \<or> isl (Inr [] :: py_exception + doc list))
   \<and> query_faiss_index (Inl (OtherException ''no index file'') :: py_exception + unit)
        (\<lambda>q. Inr ()) (Inr []) (\<lambda>ix v k. Inr [0]) ''docker'' = ([], [])"
  using retrieval_unavailable_gives_no_candidates
    [of "Inl (OtherException ''no index file'') :: py_exception + unit" "Inr []"
        "\<lambda>q. Inr ()" "\<lambda>ix v k. Inr [0]" "''docker''"]
  by simp

subsection \<open>The chunks\<close>

lemma length_chunk_at:
  "length (chunk_at xs s c) = min (s + c) (length xs) - s"
  by (auto simp: chunk_at_def Let_def)

lemma global_indices_of_list:
  "map (\<lambda>(i, d). s + i) (enumerate 0 ys) = [s..<s + length ys]"
  by (rule nth_equalityI) (simp_all add: nth_enumerate_eq)

lemma global_indices_of_chunk:
  "map (\<lambda>(i, d). s + i) (enumerate 0 (chunk_at xs s c)) = [s..<min (s + c) (length xs)]"
proof -
  have "[s..<s + length (chunk_at xs s c)] = [s..<min (s + c) (length xs)]"
    by (cases "s \<le> length xs") (simp_all add: length_chunk_at)
  then show ?thesis by (simp add: global_indices_of_list)
qed

lemma chunk_ranges_concat:
  "concat (map (\<lambda>k. [k * c..<min (k * c + c) n]) [0..<m]) = [0..<min (m * c) n]"
proof (induction m)
  case 0
  then show ?case by simp
next
  case (Suc m)
  have "[0..<min (m * c) n] @ [m * c..<min (m * c + c) n] = [0..<min (m * c + c) n]"
  proof (cases "m * c \<le> n")
    case True
    then have "min (m * c) n = m * c" by simp
    moreover have "m * c \<le> min (m * c + c) n" using True by simp
    ultimately show ?thesis
      by (metis le0 upt_add_eq_append le_Suc_ex)
  next
    case False
    then show ?thesis by simp
  qed
  with Suc show ?case by (simp add: add.commute)
qed

lemma chunks_cover_all:
  fixes n c :: nat
  assumes "0 < c"
  shows "n \<le> ((n + c - 1) div c) * c"
proof -
  let ?t = "n + c - 1"
  have "?t = ?t div c * c + ?t mod c" by simp
  moreover have "?t mod c < c" using assms by simp
  ultimately show ?thesis by linarith
qed

text \<open>
  C8. For a candidate list of length N and a chunk size C > 0, the global indices
  \<open>chunk_start + local_index\<close>, taken over the chunks in their order and over the pairs
  \<open>(local_index, text)\<close> of each numbered chunk, are 0, 1, ..., N - 1: every position
  once, none twice.
\<close>

theorem chunks_partition_candidates:
  assumes "0 < chunk_size"
  shows "\<exists>starts. py_range (length cleaned) chunk_size = Inr starts \<and>
    concat (map (\<lambda>chunk_start.
        map (\<lambda>(local_index, text). chunk_start + local_index)
          (enumerate 0 (chunk_at cleaned chunk_start (nat chunk_size)))) starts)
      = [0..<length cleaned]"
proof -
  let ?c = "nat chunk_size" and ?n = "length cleaned"
  let ?m = "(?n + ?c - 1) div ?c"
  let ?starts = "map (\<lambda>k. k * ?c) [0..<?m]"
  from assms have c: "0 < ?c" by simp
  from assms have r: "py_range ?n chunk_size = Inr ?starts"
    by (simp add: py_range_def)
  have "concat (map (\<lambda>s. map (\<lambda>(i, d). s + i) (enumerate 0 (chunk_at cleaned s ?c))) ?starts)
      = concat (map (\<lambda>k. [k * ?c..<min (k * ?c + ?c) ?n]) [0..<?m])"
    by (simp add: global_indices_of_chunk comp_def)
  also have "\<dots> = [0..<min (?m * ?c) ?n]"
    by (rule chunk_ranges_concat)
  also have "\<dots> = [0..<?n]"
    using chunks_cover_all [OF c, of ?n] by (simp add: min_def)
  finally show ?thesis using r by blast
qed

theorem chunks_partition_candidates_witness:
  "(0::int) < 2 \<and> (\<exists>starts. py_range (length [''a'', ''b'', ''c'']) 2 = Inr starts \<and>
    concat (map (\<lambda>chunk_start.
        map (\<lambda>(local_index, text). chunk_start + local_index)
          (enumerate 0 (chunk_at [''a'', ''b'', ''c''] chunk_start (nat 2)))) starts)
      = [0..<length [''a'', ''b'', ''c'']])"
  using chunks_partition_candidates [of 2 "[''a'', ''b'', ''c'']"] by simp

subsection \<open>The entry point\<close>





text \<open>The banner is printed before the \<^verbatim>\<open>try\<close>: what its first line raises leaves \<open>main\<close>.\<close>

lemma main_raises_without_stdout:
  "w_stdout w = Some e \<Longrightarrow> main w input_query = ([], Inl e)"
  by (simp add: main_def)




subsection \<open>The order of the final list\<close>

lemma float_lt_neq: "float_lt a b \<Longrightarrow> a \<noteq> b"
  by (cases a; cases b) auto

lemma float_lt_le: "float_lt a b \<Longrightarrow> float_le a b"
  by (cases a; cases b) auto

lemma float_le_total: "a \<noteq> NaN \<Longrightarrow> b \<noteq> NaN \<Longrightarrow> \<not> float_lt a b \<Longrightarrow> float_le b a"
  by (cases a; cases b) auto

lemma float_le_trans: "float_le a b \<Longrightarrow> float_le b c \<Longrightarrow> float_le a c"
  by (cases a; cases b; cases c) auto

text \<open>Solutions of one confidence keep their order through the insertion.\<close>

lemma filter_insert_desc:
  "filter (\<lambda>s. confidence s = c) (insert_desc x ys) = filter (\<lambda>s. confidence s = c) (x # ys)"
proof (induction ys)
  case Nil
  then show ?case by simp
next
  case (Cons y ys)
  show ?case
  proof (cases "float_lt (confidence x) (confidence y)")
    case True
    then have "confidence x \<noteq> confidence y" by (rule float_lt_neq)
    with True Cons show ?thesis by auto
  next
    case False
    then show ?thesis by simp
  qed
qed

lemma filter_sort_by_confidence_desc:
  "filter (\<lambda>s. confidence s = c) (sort_by_confidence_desc xs) = filter (\<lambda>s. confidence s = c) xs"
proof (induction xs)
  case Nil
  then show ?case by (simp add: sort_by_confidence_desc_def)
next
  case (Cons x xs)
  have "sort_by_confidence_desc (x # xs) = insert_desc x (sort_by_confidence_desc xs)"
    by (simp add: sort_by_confidence_desc_def)
  with Cons show ?case by (simp add: filter_insert_desc)
qed

lemma sorted_insert_desc:
  assumes "sorted_wrt (\<lambda>a b. float_le (confidence b) (confidence a)) ys"
    and "confidence x \<noteq> NaN" and "\<forall>y \<in> set ys. confidence y \<noteq> NaN"
  shows "sorted_wrt (\<lambda>a b. float_le (confidence b) (confidence a)) (insert_desc x ys)"
  using assms
proof (induction ys)
  case Nil
  then show ?case by simp
next
  case (Cons y ys)
  show ?case
  proof (cases "float_lt (confidence x) (confidence y)")
    case True
    then have "float_le (confidence x) (confidence y)" by (rule float_lt_le)
    with True Cons show ?thesis by (auto simp: set_insert_desc)
  next
    case False
    with Cons.prems have xy: "float_le (confidence y) (confidence x)"
      by (intro float_le_total) auto
    have "\<forall>z \<in> set ys. float_le (confidence z) (confidence x)"
    proof
      fix z assume "z \<in> set ys"
      with Cons.prems(1) have "float_le (confidence z) (confidence y)" by auto
      then show "float_le (confidence z) (confidence x)" using xy by (rule float_le_trans)
    qed
    with False xy Cons.prems(1) show ?thesis by auto
  qed
qed

lemma sorted_sort_by_confidence_desc:
  "\<forall>x \<in> set xs. confidence x \<noteq> NaN
    \<Longrightarrow> sorted_wrt (\<lambda>a b. float_le (confidence b) (confidence a)) (sort_by_confidence_desc xs)"
proof (induction xs)
  case Nil
  then show ?case by (simp add: sort_by_confidence_desc_def)
next
  case (Cons x xs)
  have "sort_by_confidence_desc (x # xs) = insert_desc x (sort_by_confidence_desc xs)"
    by (simp add: sort_by_confidence_desc_def)
  moreover from Cons have
    "sorted_wrt (\<lambda>a b. float_le (confidence b) (confidence a)) (sort_by_confidence_desc xs)"
    by simp
  ultimately show ?case
    using Cons.prems by (simp add: sorted_insert_desc set_sort_by_confidence_desc)
qed

text \<open>
  C3, as the claim states it: two solutions of equal confidence would stand in the order
  of their candidates. The model answers with candidate 1 before candidate 0, both with
  confidence 0.75: the final list keeps them in this order, candidate 1 first.
\<close>

theorem ties_keep_response_order:
  "query_llm_model (canned_chat (''1 0.75 a'' @ [newline] @ ''0 0.75 b'')) [''x'', ''y''] ''q''
     [\<lparr>doc_id = 0, failure = Some ''f0'', root_cause = Some ''r0'', solution = Some ''s0''\<rparr>,
      \<lparr>doc_id = 1, failure = Some ''f1'', root_cause = Some ''r1'', solution = Some ''s1''\<rparr>] 10
   = Inr [\<lparr>Failure = Some ''f1'', Root_Cause = Some ''r1'', Solution = Some ''s1'',
            confidence = Finite (3 / 4), reason = ''a'', global_index = 1\<rparr>,
          \<lparr>Failure = Some ''f0'', Root_Cause = Some ''r0'', Solution = Some ''s0'',
            confidence = Finite (3 / 4), reason = ''b'', global_index = 0\<rparr>]"
  by code_simp

text \<open>
  C3, amended. When no confidence of the final list is not-a-number, the list is in
  descending order of confidence, and the solutions of one confidence stand in the order
  in which the loop over the chunks collected them: the order of the chunks, and within
  a chunk the order of the lines of the response.
\<close>

theorem final_list_sorted_and_stable:
  assumes q: "query_llm_model chat cleaned issue docs n = Inr out"
    and nn: "\<forall>s \<in> set out. confidence s \<noteq> NaN"
    and d: "docs \<noteq> []"
  shows "sorted_wrt (\<lambda>a b. float_le (confidence b) (confidence a)) out
    \<and> (\<exists>starts collected.
          py_range (length cleaned) n = Inr starts
          \<and> score_chunks chat cleaned issue docs (nat n) starts [] = Inr collected
          \<and> (\<forall>c. filter (\<lambda>s. confidence s = c) out
                  = filter (\<lambda>s. confidence s = c) collected))"
proof -
  from q d obtain starts collected where
    r: "py_range (length cleaned) n = Inr starts" and
    s: "score_chunks chat cleaned issue docs (nat n) starts [] = Inr collected" and
    p: "display_hackathon_results collected = Inr out"
    by (auto simp: query_llm_model_def split: sum.splits)
  from display_hackathon_results_Inr [OF p] have o: "out = sort_by_confidence_desc collected" .
  from o nn have "\<forall>s \<in> set collected. confidence s \<noteq> NaN"
    by (simp add: set_sort_by_confidence_desc)
  then have "sorted_wrt (\<lambda>a b. float_le (confidence b) (confidence a)) out"
    using o by (simp add: sorted_sort_by_confidence_desc)
  moreover have "\<forall>c. filter (\<lambda>s. confidence s = c) out = filter (\<lambda>s. confidence s = c) collected"
    using o by (simp add: filter_sort_by_confidence_desc)
  ultimately show ?thesis using r s by blast
qed

theorem final_list_sorted_and_stable_witness:
  "query_llm_model (canned_chat (''0 0.75 a'' @ [newline] @ ''1 1 b'')) [''x'', ''y''] ''q''
     [\<lparr>doc_id = 0, failure = Some ''f0'', root_cause = Some ''r0'', solution = Some ''s0''\<rparr>,
      \<lparr>doc_id = 1, failure = Some ''f1'', root_cause = Some ''r1'', solution = Some ''s1''\<rparr>] 10
   = Inr [\<lparr>Failure = Some ''f1'', Root_Cause = Some ''r1'', Solution = Some ''s1'',
            confidence = Finite 1, reason = ''b'', global_index = 1\<rparr>,
          \<lparr>Failure = Some ''f0'', Root_Cause = Some ''r0'', Solution = Some ''s0'',
            confidence = Finite (3 / 4), reason = ''a'', global_index = 0\<rparr>]
   \<and> Finite 1 \<noteq> NaN \<and> Finite (3 / 4) \<noteq> NaN
   \<and> sorted_wrt (\<lambda>a b. float_le (confidence b) (confidence a))
       [\<lparr>Failure = Some ''f1'', Root_Cause = Some ''r1'', Solution = Some ''s1'',
            confidence = Finite 1, reason = ''b'', global_index = 1\<rparr>,
        \<lparr>Failure = Some ''f0'', Root_Cause = Some ''r0'', Solution = Some ''s0'',
            confidence = Finite (3 / 4), reason = ''a'', global_index = 0\<rparr>]"
proof -
  let ?chat = "canned_chat (''0 0.75 a'' @ [newline] @ ''1 1 b'')"
  let ?docs = "[\<lparr>doc_id = 0, failure = Some ''f0'', root_cause = Some ''r0'',
      solution = Some ''s0''\<rparr>,
    \<lparr>doc_id = 1, failure = Some ''f1'', root_cause = Some ''r1'', solution = Some ''s1''\<rparr>]"
  let ?out = "[\<lparr>Failure = Some ''f1'', Root_Cause = Some ''r1'', Solution = Some ''s1'',
      confidence = Finite 1, reason = ''b'', global_index = 1\<rparr>,
    \<lparr>Failure = Some ''f0'', Root_Cause = Some ''r0'', Solution = Some ''s0'',
      confidence = Finite (3 / 4), reason = ''a'', global_index = 0\<rparr>]"
  have q: "query_llm_model ?chat [''x'', ''y''] ''q'' ?docs 10 = Inr ?out"
    by code_simp
  have nn: "\<forall>s \<in> set ?out. confidence s \<noteq> NaN" by simp
  have d: "?docs \<noteq> []" by simp
  from final_list_sorted_and_stable [OF q nn d]
  have "sorted_wrt (\<lambda>a b. float_le (confidence b) (confidence a)) ?out" by (rule conjunct1)
  with q show ?thesis by simp
qed

subsection \<open>The fallback\<close>

text \<open>The fallback line, read by the parser step by step.\<close>

lemma fallback_not_none: "strip (upper fallback_response) \<noteq> ''NONE''"
  by code_simp

lemma fallback_one_line: "split_on newline fallback_response = [fallback_response]"
  by code_simp

lemma fallback_stripped: "strip fallback_response = fallback_response"
  by code_simp

lemma fallback_no_bar: "CHR ''|'' \<notin> set fallback_response"
  by code_simp

lemma fallback_not_empty: "fallback_response \<noteq> []"
  by code_simp

lemma fallback_parts:
  "split_max (CHR '' '') 2 fallback_response
     = [''0'', ''0.8'', ''Fallback selection - keyword matching applied'']"
  by code_simp

lemma fallback_index: "isdigit ''0''" "py_int ''0'' = Some 0"
  by code_simp+

lemma fallback_confidence:
  "py_float ''0.8'' = Some (Finite (3602879701896397 / 4503599627370496))"
  by code_simp

lemma fallback_confidence_passes:
  "\<not> float_le (Finite (3602879701896397 / 4503599627370496)) threshold"
  by (simp add: threshold_def)

lemma parse_fallback:
  "parse_llm_response fallback_response chunk off docs =
     Inr (case create_solution_entry 0 (Finite (3602879701896397 / 4503599627370496))
                 ''Fallback selection - keyword matching applied'' off docs of
            None \<Rightarrow> []
          | Some e \<Rightarrow> [e])"
  by (simp add: parse_llm_response_def fallback_not_none fallback_one_line parse_line_def
      fallback_stripped fallback_no_bar fallback_not_empty fallback_parts fallback_index
      fallback_confidence assign_fields_def emit_def unbound_def Let_def
      split: option.split)

lemma raw_response_unavailable:
  "\<forall>s q t. isl (chat s q t) \<Longrightarrow> raw_response chat s issue chunk = fallback_response"
  by (simp add: raw_response_def Let_def split: sum.split) (metis sum.disc(2))

lemma score_chunks_unavailable:
  assumes u: "\<forall>s q t. isl (chat s q t)"
  shows "\<forall>s \<in> set starts. s < length docs \<Longrightarrow>
    \<exists>sols. score_chunks chat cleaned issue docs c starts acc = Inr (acc @ sols)
      \<and> map global_index sols = map int starts
      \<and> (\<forall>s \<in> set sols. Some (confidence s) = py_float ''0.8''
            \<and> reason s = ''Fallback selection - keyword matching applied'')"
proof (induction starts arbitrary: acc)
  case Nil
  then show ?case by simp
next
  case (Cons st starts)
  let ?e = "\<lparr>Failure = failure (docs ! st), Root_Cause = root_cause (docs ! st),
    Solution = solution (docs ! st),
    confidence = Finite (3602879701896397 / 4503599627370496),
    reason = ''Fallback selection - keyword matching applied'', global_index = int st\<rparr>"
  from Cons.prems have "st < length docs" by simp
  then have "create_solution_entry 0 (Finite (3602879701896397 / 4503599627370496))
      ''Fallback selection - keyword matching applied'' (int st) docs = Some ?e"
    by (simp add: create_solution_entry_def fallback_confidence_passes Let_def)
  then have p: "parse_llm_response fallback_response (chunk_at cleaned st c) (int st) docs
      = Inr [?e]"
    by (simp add: parse_fallback)
  from Cons.prems have "\<forall>s \<in> set starts. s < length docs" by simp
  from Cons.IH [OF this, of "acc @ [?e]"] obtain sols where
    1: "score_chunks chat cleaned issue docs c starts (acc @ [?e]) = Inr ((acc @ [?e]) @ sols)"
    and 2: "map global_index sols = map int starts"
    and 3: "\<forall>s \<in> set sols. Some (confidence s) = py_float ''0.8''
            \<and> reason s = ''Fallback selection - keyword matching applied''"
    by blast
  have "score_chunks chat cleaned issue docs c (st # starts) acc = Inr (acc @ (?e # sols))"
    using 1 p by (simp add: raw_response_unavailable [OF u] Let_def)
  moreover have "map global_index (?e # sols) = map int (st # starts)"
    using 2 by simp
  moreover have "\<forall>s \<in> set (?e # sols). Some (confidence s) = py_float ''0.8''
            \<and> reason s = ''Fallback selection - keyword matching applied''"
    using 3 by (simp add: fallback_confidence)
  ultimately show ?case by blast
qed

lemma fallback_bar:
  "confidence_bar (Finite (3602879701896397 / 4503599627370496)) = Inr (8, 2)"
  by code_simp

lemma print_solutions_fallback:
  "\<forall>s \<in> set xs. confidence s = Finite (3602879701896397 / 4503599627370496)
    \<Longrightarrow> print_solutions xs = None"
  by (induction xs) (simp_all add: fallback_bar)

lemma float_lt_irrefl: "\<not> float_lt a a"
  by (cases a) auto

lemma sort_equal_confidence:
  "\<forall>s \<in> set xs. confidence s = c \<Longrightarrow> sort_by_confidence_desc xs = xs"
proof (induction xs)
  case Nil
  then show ?case by (simp add: sort_by_confidence_desc_def)
next
  case (Cons x xs)
  then have "sort_by_confidence_desc (x # xs) = insert_desc x xs"
    by (simp add: sort_by_confidence_desc_def)
  also have "\<dots> = x # xs"
    using Cons.prems by (cases xs) (simp_all add: float_lt_irrefl)
  finally show ?case .
qed

lemma chunk_starts_in_range:
  fixes k c n :: nat
  assumes "0 < c" and "k < (n + c - 1) div c"
  shows "k * c < n"
proof -
  from assms(2) have "Suc k \<le> (n + c - 1) div c" by simp
  then have "Suc k * c \<le> (n + c - 1) div c * c" by (rule mult_le_mono1)
  also have "\<dots> \<le> n + c - 1" by (rule div_times_less_eq_dividend)
  finally show ?thesis using assms(1) by simp
qed

text \<open>
  C4. When the candidate list is not empty and the language model raises on every
  chunk, the scorer returns a list that is not empty: one solution for each chunk, at
  the global index where the chunk starts (local index 0 of the chunk), with confidence
  0.8 and the reason of the fallback line. The cleaned texts are as many as the
  candidates, as \<open>query_faiss_index\<close> gives them, and the chunk size is positive.
\<close>

theorem fallback_when_llm_unavailable:
  assumes d: "docs \<noteq> []" and l: "length cleaned = length docs" and n: "0 < n"
    and u: "\<forall>s q t. isl (chat s q t)"
  shows "\<exists>starts sols.
      py_range (length cleaned) n = Inr starts
      \<and> query_llm_model chat cleaned issue docs n = Inr sols
      \<and> sols \<noteq> []
      \<and> map global_index sols = map int starts
      \<and> (\<forall>s \<in> set sols. Some (confidence s) = py_float ''0.8''
            \<and> reason s = ''Fallback selection - keyword matching applied'')"
proof -
  let ?c = "nat n"
  let ?m = "(length cleaned + ?c - 1) div ?c"
  let ?starts = "map (\<lambda>k. k * ?c) [0..<?m]"
  from n have c: "0 < ?c" by simp
  from n have r: "py_range (length cleaned) n = Inr ?starts"
    by (simp add: py_range_def)
  have "\<forall>s \<in> set ?starts. s < length docs"
    using chunk_starts_in_range [OF c] l by auto
  from score_chunks_unavailable [OF u this, of cleaned issue ?c "[]"] obtain sols where
    1: "score_chunks chat cleaned issue docs ?c ?starts [] = Inr sols" and
    2: "map global_index sols = map int ?starts" and
    3: "\<forall>s \<in> set sols. Some (confidence s) = py_float ''0.8''
            \<and> reason s = ''Fallback selection - keyword matching applied''"
    by auto
  from 3 have "\<forall>s \<in> set sols. confidence s = Finite (3602879701896397 / 4503599627370496)"
    by (simp add: fallback_confidence)
  then have e: "\<forall>s \<in> set sols. confidence s = Finite (3602879701896397 / 4503599627370496)" .
  then have "sort_by_confidence_desc sols = sols" by (rule sort_equal_confidence)
  moreover from e have "print_solutions sols = None" by (rule print_solutions_fallback)
  ultimately have "display_hackathon_results sols = Inr sols"
    by (simp add: display_hackathon_results_def)
  with 1 r d have q: "query_llm_model chat cleaned issue docs n = Inr sols"
    by (simp add: query_llm_model_def)
  from d have "0 < length docs" by simp
  with l c have "?c \<le> length cleaned + ?c - 1" by linarith
  with c have "0 < ?m" by (simp add: div_greater_zero_iff)
  then have "?starts \<noteq> []" by simp
  with 2 have "sols \<noteq> []" by auto
  with r q 2 3 show ?thesis by blast
qed

theorem fallback_when_llm_unavailable_witness:
  "[\<lparr>doc_id = 0, failure = Some ''f0'', root_cause = Some ''r0'', solution = Some ''s0''\<rparr>,
    \<lparr>doc_id = 1, failure = Some ''f1'', root_cause = Some ''r1'', solution = Some ''s1''\<rparr>] \<noteq> []
   \<and> length [''x'', ''y'']
     = length
        [\<lparr>doc_id = 0, failure = Some ''f0'', root_cause = Some ''r0'', solution = Some ''s0''\<rparr>,
         \<lparr>doc_id = 1, failure = Some ''f1'', root_cause = Some ''r1'', solution = Some ''s1''\<rparr>]
   \<and> (0::int) < 1
   \<and> (\<forall>s q t. isl (unreachable_chat s q t))
   \<and> query_llm_model unreachable_chat [''x'', ''y''] ''q''
        [\<lparr>doc_id = 0, failure = Some ''f0'', root_cause = Some ''r0'', solution = Some ''s0''\<rparr>,
         \<lparr>doc_id = 1, failure = Some ''f1'', root_cause = Some ''r1'', solution = Some ''s1''\<rparr>] 1
     \<noteq> Inr []"
proof -
  let ?docs = "[\<lparr>doc_id = 0, failure = Some ''f0'', root_cause = Some ''r0'',
      solution = Some ''s0''\<rparr>,
    \<lparr>doc_id = 1, failure = Some ''f1'', root_cause = Some ''r1'', solution = Some ''s1''\<rparr>]"
  have d: "?docs \<noteq> []" by simp
  have l: "length [''x'', ''y''] = length ?docs" by simp
  have n: "(0::int) < 1" by simp
  have u: "\<forall>s q t. isl (unreachable_chat s q t)" by (simp add: unreachable_chat_def)
  from fallback_when_llm_unavailable [OF d l n u, of "''q''"]
  have "query_llm_model unreachable_chat [''x'', ''y''] ''q'' ?docs 1 \<noteq> Inr []" by auto
  with d l n u show ?thesis by blast
qed

end
